theory Spec2Isabelle
  imports Main "HOL-Library.Word"
begin

section \<open>The inter-AS BGP exercise: data\<close>

text \<open>
  The program is one C++ file: a struct \<open>BgpRoute\<close>, a class \<open>BgpSpeaker\<close> with the
  methods \<open>Initialize\<close>, \<open>AddNeighbor\<close>, \<open>Advertise\<close> and \<open>InstallRoute\<close>, and a
  \<open>main\<close> that creates two speakers and schedules four callbacks on the simulator.
  The class has no other method: there is no receive, insert, select or withdraw
  operation anywhere in the sources.

  Addresses, masks and AS numbers are 32-bit unsigned values. A dotted address literal
  \<open>"a.b.c.d"\<close> denotes the value with \<open>a\<close> in the top byte.
\<close>

type_synonym Ipv4Address = "32 word"
type_synonym Ipv4Mask = "32 word"

definition dotted :: "nat \<Rightarrow> nat \<Rightarrow> nat \<Rightarrow> nat \<Rightarrow> 32 word" where
  "dotted a b c d = of_nat (a * 16777216 + b * 65536 + c * 256 + d)"

record BgpRoute =
  prefix :: Ipv4Address
  mask_r :: Ipv4Mask
  asPath :: "32 word list"

text \<open>
  The fields of \<open>BgpSpeaker\<close>. A \<open>Ptr<Node>\<close> is the index of the node in the node
  container, a \<open>Ptr<Ipv4>\<close> the identifier of the node's IPv4 object; a null pointer is
  \<open>None\<close>.
\<close>

record BgpSpeaker =
  m_as :: "32 word"
  m_node :: "nat option"
  m_ipv4 :: "nat option"
  m_nextHop :: Ipv4Address
  m_neighbors :: "32 word list"

section \<open>The simulator side\<close>

text \<open>
  What the program does to the simulation library is kept as explicit state.

  \<^item> \<open>staticRouting i\<close> is the table of the static routing protocol of IPv4 object \<open>i\<close>
    as a sequence of routes (network, mask, next hop, interface), oldest first; an
    \<open>AddNetworkRouteTo\<close> request appends its route. This is the forwarding state the
    program writes. The library enters routes of its own into these tables (for the
    networks a node is attached to, when \<open>main\<close> assigns addresses); what a table holds
    when the callbacks start is therefore a parameter, see \<open>with_tables\<close> below.
  \<^item> \<open>logged\<close> is the sequence of unconditional log statements executed, each with the
    values streamed into it. \<open>LogAdvertises\<close> carries the route's mask; the program prints
    its prefix length.
  \<^item> \<open>events\<close> is the scheduler's queue, ordered by time and, at equal times, by
    insertion; \<open>now\<close> is the simulated time in seconds; \<open>stopped\<close> is set by the stop
    event.
  \<^item> \<open>ipv4_of n\<close> is what \<open>GetObject<Ipv4>\<close> gives on node \<open>n\<close>.
\<close>

record StaticRoute =
  dest :: Ipv4Address
  destMask :: Ipv4Mask
  gateway :: Ipv4Address
  interface :: "32 word"

datatype LogLine =
    LogAdvertises "32 word" Ipv4Address Ipv4Mask
  | LogSentTo "32 word"
  | LogRouteLeak
  | LogRoutingTables
  | LogPrintAllAt nat

datatype Action = Lambda_t2 | Lambda_t3 | Lambda_leak | Lambda_dump | StopEvent

record ns3 =
  ipv4_of :: "nat \<Rightarrow> nat option"
  staticRouting :: "nat \<Rightarrow> StaticRoute list"
  logged :: "LogLine list"
  events :: "(nat \<times> Action) list"
  now :: nat
  stopped :: bool

datatype error = NullPointer

definition AddNetworkRouteTo ::
    "nat \<Rightarrow> Ipv4Address \<Rightarrow> Ipv4Mask \<Rightarrow> Ipv4Address \<Rightarrow> 32 word \<Rightarrow> ns3 \<Rightarrow> ns3" where
  "AddNetworkRouteTo i net msk nh ifc w =
     w\<lparr>staticRouting := (staticRouting w)
          (i := staticRouting w i @
                [\<lparr>dest = net, destMask = msk, gateway = nh, interface = ifc\<rparr>])\<rparr>"

text \<open>Insertion into the queue: after every event that is not later (first in, first out).\<close>

fun enqueue :: "nat \<times> Action \<Rightarrow> (nat \<times> Action) list \<Rightarrow> (nat \<times> Action) list" where
  "enqueue e [] = [e]"
| "enqueue e (x # xs) = (if fst e < fst x then e # x # xs else x # enqueue e xs)"

definition Schedule :: "nat \<Rightarrow> Action \<Rightarrow> ns3 \<Rightarrow> ns3" where
  "Schedule delay a w = w\<lparr>events := enqueue (now w + delay, a) (events w)\<rparr>"

definition Stop :: "nat \<Rightarrow> ns3 \<Rightarrow> ns3" where
  "Stop delay w = Schedule delay StopEvent w"

section \<open>The class BgpSpeaker\<close>

text \<open>
  Every method takes the object it is called on and the simulator state and returns
  both. The constructor leaves \<open>m_nextHop\<close> at the library's default address, a
  parameter here.
\<close>

definition BgpSpeaker_new :: "Ipv4Address \<Rightarrow> 32 word \<Rightarrow> BgpSpeaker" where
  "BgpSpeaker_new dflt asn =
     \<lparr>m_as = asn, m_node = None, m_ipv4 = None, m_nextHop = dflt, m_neighbors = []\<rparr>"

definition Initialize ::
    "nat \<Rightarrow> Ipv4Address \<Rightarrow> BgpSpeaker \<Rightarrow> ns3 \<Rightarrow> BgpSpeaker \<times> ns3" where
  "Initialize n nextHop this w =
     (this\<lparr>m_node := Some n, m_ipv4 := ipv4_of w n, m_nextHop := nextHop\<rparr>, w)"

definition AddNeighbor :: "32 word \<Rightarrow> BgpSpeaker \<Rightarrow> ns3 \<Rightarrow> BgpSpeaker \<times> ns3" where
  "AddNeighbor asn this w = (this\<lparr>m_neighbors := m_neighbors this @ [asn]\<rparr>, w)"

text \<open>The loop of \<open>Advertise\<close>: one log line for each element of \<open>m_neighbors\<close>.\<close>

fun sent_loop :: "32 word list \<Rightarrow> LogLine list \<Rightarrow> LogLine list" where
  "sent_loop [] out = out"
| "sent_loop (n # ns) out = sent_loop ns (out @ [LogSentTo n])"

definition Advertise :: "BgpRoute \<Rightarrow> BgpSpeaker \<Rightarrow> ns3 \<Rightarrow> BgpSpeaker \<times> ns3" where
  "Advertise r this w =
     (this,
      w\<lparr>logged := sent_loop (m_neighbors this)
                    (logged w @ [LogAdvertises (m_as this) (prefix r) (mask_r r)])\<rparr>)"

text \<open>
  \<open>InstallRoute\<close> looks the static routing protocol up through \<open>m_ipv4\<close>; on a speaker
  that holds no IPv4 object this dereferences a null pointer.
\<close>

definition InstallRoute ::
    "Ipv4Address \<Rightarrow> Ipv4Mask \<Rightarrow> BgpSpeaker \<Rightarrow> ns3 \<Rightarrow> error + BgpSpeaker \<times> ns3" where
  "InstallRoute net msk this w =
     (case m_ipv4 this of
        None \<Rightarrow> Inl NullPointer
      | Some i \<Rightarrow> Inr (this, AddNetworkRouteTo i net msk (m_nextHop this) 1 w))"

section \<open>The program\<close>

text \<open>
  The local variables of \<open>main\<close> that the callbacks capture by reference, and the
  simulator state.
\<close>

record sim =
  as65001 :: BgpSpeaker
  as65002 :: BgpSpeaker
  ns :: ns3

definition exec_t2 :: "sim \<Rightarrow> error + sim" where
  "exec_t2 st =
     (let r = \<lparr>prefix = dotted 10 1 0 0, mask_r = dotted 255 255 0 0, asPath = [65001]\<rparr>;
          (a, w1) = Advertise r (as65001 st) (ns st)
      in case InstallRoute (prefix r) (mask_r r) (as65002 st) w1 of
           Inl e \<Rightarrow> Inl e
         | Inr (b, w2) \<Rightarrow> Inr (st\<lparr>as65001 := a, as65002 := b, ns := w2\<rparr>))"

definition exec_t3 :: "sim \<Rightarrow> error + sim" where
  "exec_t3 st =
     (let r = \<lparr>prefix = dotted 10 2 0 0, mask_r = dotted 255 255 0 0, asPath = [65002]\<rparr>;
          (b, w1) = Advertise r (as65002 st) (ns st)
      in case InstallRoute (prefix r) (mask_r r) (as65001 st) w1 of
           Inl e \<Rightarrow> Inl e
         | Inr (a, w2) \<Rightarrow> Inr (st\<lparr>as65001 := a, as65002 := b, ns := w2\<rparr>))"

definition exec_leak :: "sim \<Rightarrow> error + sim" where
  "exec_leak st =
     (let w1 = (ns st)\<lparr>logged := logged (ns st) @ [LogRouteLeak]\<rparr>
      in case InstallRoute (dotted 10 1 0 0) (dotted 255 255 0 0) (as65002 st) w1 of
           Inl e \<Rightarrow> Inl e
         | Inr (b, w2) \<Rightarrow> Inr (st\<lparr>as65002 := b, ns := w2\<rparr>))"

definition exec_dump :: "sim \<Rightarrow> error + sim" where
  "exec_dump st =
     Inr (st\<lparr>ns := (ns st)\<lparr>logged := logged (ns st) @ [LogRoutingTables, LogPrintAllAt 12]\<rparr>\<rparr>)"

fun exec :: "Action \<Rightarrow> sim \<Rightarrow> error + sim" where
  "exec Lambda_t2 st = exec_t2 st"
| "exec Lambda_t3 st = exec_t3 st"
| "exec Lambda_leak st = exec_leak st"
| "exec Lambda_dump st = exec_dump st"
| "exec StopEvent st = Inr (st\<lparr>ns := (ns st)\<lparr>stopped := True\<rparr>\<rparr>)"

text \<open>
  The simulator's loop: take the earliest event, advance the clock to it, run it; stop
  when the queue is empty or the stop event has run. With a limit \<open>Some T\<close> the loop
  also stops before the first event later than \<open>T\<close>, which gives the state the program
  is in at simulated time \<open>T\<close>; the program itself runs with no limit.
\<close>

definition within :: "nat option \<Rightarrow> nat \<Rightarrow> bool" where
  "within lim t = (case lim of None \<Rightarrow> True | Some T \<Rightarrow> t \<le> T)"

function Run_loop :: "nat option \<Rightarrow> sim \<Rightarrow> error + sim" where
  "Run_loop lim st =
     (case events (ns st) of
        [] \<Rightarrow> Inr st
      | (t, a) # rest \<Rightarrow>
          if stopped (ns st) then Inr st
          else if within lim t then
            (case exec a (st\<lparr>ns := (ns st)\<lparr>events := rest, now := t\<rparr>\<rparr>) of
               Inl e \<Rightarrow> Inl e
             | Inr st' \<Rightarrow> Run_loop lim st')
          else Inr st)"
  by pat_completeness auto
termination
proof (relation "measure (\<lambda>(lim, st). length (events (ns st)))")
  show "wf (measure (\<lambda>(lim, st). length (events (ns st))))" by simp
next
  fix lim :: "nat option" and st st' :: sim and e rest t a
  assume ev: "events (ns st) = e # rest"
    and ex: "exec a (st\<lparr>ns := (ns st)\<lparr>events := rest, now := t\<rparr>\<rparr>) = Inr st'"
  have "events (ns st') = rest"
    using ex
    by (cases a)
       (auto simp: exec_t2_def exec_t3_def exec_leak_def exec_dump_def Advertise_def
                   InstallRoute_def AddNetworkRouteTo_def Let_def
             split: option.splits sum.splits prod.splits)
  with ev show "((lim, st'), (lim, st)) \<in> measure (\<lambda>(lim, st). length (events (ns st)))"
    by simp
qed

definition Simulator_Run :: "sim \<Rightarrow> error + sim" where
  "Simulator_Run st = Run_loop None st"

text \<open>
  \<open>main\<close> up to the call of \<open>Simulator::Run\<close>: six nodes with the internet stack, the
  two speakers, their initialisation and neighbours, the four callbacks and the stop
  event. Links, addressing, mobility, traffic and tracing do not touch the speakers
  or issue routing requests through them and are left out. In \<open>main_setup\<close> every
  static routing table starts empty, so that a table lists exactly the routes the
  program itself has requested; \<open>with_tables\<close> puts in their place the tables the
  library has built by the time the simulation starts.
\<close>

definition ns3_initial :: ns3 where
  "ns3_initial =
     \<lparr>ipv4_of = (\<lambda>n. if n < 6 then Some n else None),
      staticRouting = (\<lambda>i. []),
      logged = [],
      events = [],
      now = 0,
      stopped = False\<rparr>"

definition main_setup :: "Ipv4Address \<Rightarrow> sim" where
  "main_setup dflt =
     (let w0 = ns3_initial;
          a0 = BgpSpeaker_new dflt 65001;
          b0 = BgpSpeaker_new dflt 65002;
          (a1, w1) = Initialize 0 (dotted 10 1 1 2) a0 w0;
          (b1, w2) = Initialize 3 (dotted 10 2 1 2) b0 w1;
          (a2, w3) = AddNeighbor 65002 a1 w2;
          (b2, w4) = AddNeighbor 65001 b1 w3;
          w5 = Schedule 2 Lambda_t2 w4;
          w6 = Schedule 3 Lambda_t3 w5;
          w7 = Schedule 10 Lambda_leak w6;
          w8 = Schedule 12 Lambda_dump w7;
          w9 = Stop 25 w8
      in \<lparr>as65001 = a2, as65002 = b2, ns = w9\<rparr>)"

definition main :: "Ipv4Address \<Rightarrow> error + sim" where
  "main dflt = Simulator_Run (main_setup dflt)"

text \<open>
  The state of the program at simulated time \<open>T\<close>, and what is read off it.
  \<open>table_at\<close> is the sequence of routes the program has requested by time \<open>T\<close> on the
  static routing of one IPv4 object (the tables of \<open>main_setup\<close> start empty); it is
  not the whole table of the node, which also holds the library's own routes.
  \<open>log_at\<close> is the log.
\<close>

definition state_at :: "Ipv4Address \<Rightarrow> nat \<Rightarrow> error + sim" where
  "state_at dflt T = Run_loop (Some T) (main_setup dflt)"

definition observe :: "(sim \<Rightarrow> 'a) \<Rightarrow> error + sim \<Rightarrow> error + 'a" where
  "observe f res = (case res of Inl e \<Rightarrow> Inl e | Inr st \<Rightarrow> Inr (f st))"

definition table_at :: "Ipv4Address \<Rightarrow> nat \<Rightarrow> nat \<Rightarrow> error + StaticRoute list" where
  "table_at dflt T i = observe (\<lambda>st. staticRouting (ns st) i) (state_at dflt T)"

definition log_at :: "Ipv4Address \<Rightarrow> nat \<Rightarrow> error + LogLine list" where
  "log_at dflt T = observe (\<lambda>st. logged (ns st)) (state_at dflt T)"

text \<open>
  The routes of a table for one destination: those with exactly this network and mask,
  oldest first. \<open>routes_at\<close> reads them off the routes the program has requested.
\<close>

definition routesFor :: "Ipv4Address \<Rightarrow> Ipv4Mask \<Rightarrow> StaticRoute list \<Rightarrow> StaticRoute list" where
  "routesFor net msk tbl = filter (\<lambda>e. dest e = net \<and> destMask e = msk) tbl"

definition routes_at ::
    "Ipv4Address \<Rightarrow> nat \<Rightarrow> nat \<Rightarrow> Ipv4Address \<Rightarrow> Ipv4Mask \<Rightarrow> error + StaticRoute list" where
  "routes_at dflt T i net msk =
     observe (\<lambda>st. routesFor net msk (staticRouting (ns st) i)) (state_at dflt T)"

text \<open>
  The whole table. \<open>with_tables pre st\<close> is the state \<open>st\<close> with the static routing
  tables \<open>pre\<close>, and \<open>state_from pre dflt T\<close> the state at time \<open>T\<close> of the program
  started with the tables \<open>pre\<close>: whatever the library has entered before the first
  callback runs.
\<close>

definition with_tables :: "(nat \<Rightarrow> StaticRoute list) \<Rightarrow> sim \<Rightarrow> sim" where
  "with_tables pre st = st\<lparr>ns := (ns st)\<lparr>staticRouting := pre\<rparr>\<rparr>"

definition state_from ::
    "(nat \<Rightarrow> StaticRoute list) \<Rightarrow> Ipv4Address \<Rightarrow> nat \<Rightarrow> error + sim" where
  "state_from pre dflt T = Run_loop (Some T) (with_tables pre (main_setup dflt))"

section \<open>Evaluating the program\<close>

declare Run_loop.simps [simp del]

lemmas exec_defs = exec_t2_def exec_t3_def exec_leak_def exec_dump_def Advertise_def
  InstallRoute_def AddNetworkRouteTo_def Let_def

lemmas setup_defs = main_setup_def ns3_initial_def BgpSpeaker_new_def Initialize_def
  AddNeighbor_def Schedule_def Stop_def Let_def

lemmas observe_defs = table_at_def log_at_def routes_at_def observe_def routesFor_def

lemma sent_loop_eq: "sent_loop xs out = out @ map LogSentTo xs"
  by (induction xs arbitrary: out) simp_all

lemma Run_loop_Nil: "events (ns st) = [] \<Longrightarrow> Run_loop lim st = Inr st"
  by (subst Run_loop.simps) simp

lemma Run_loop_Cons:
  "events (ns st) = (t, a) # rest \<Longrightarrow>
   Run_loop lim st =
     (if stopped (ns st) then Inr st
      else if within lim t then
        (case exec a (st\<lparr>ns := (ns st)\<lparr>events := rest, now := t\<rparr>\<rparr>) of
           Inl e \<Rightarrow> Inl e
         | Inr st' \<Rightarrow> Run_loop lim st')
      else Inr st)"
  by (subst Run_loop.simps) simp

lemma main_setup_eq:
  "main_setup d =
     \<lparr>as65001 = \<lparr>m_as = 65001, m_node = Some 0, m_ipv4 = Some 0,
                  m_nextHop = dotted 10 1 1 2, m_neighbors = [65002]\<rparr>,
      as65002 = \<lparr>m_as = 65002, m_node = Some 3, m_ipv4 = Some 3,
                  m_nextHop = dotted 10 2 1 2, m_neighbors = [65001]\<rparr>,
      ns = \<lparr>ipv4_of = (\<lambda>n. if n < 6 then Some n else None),
             staticRouting = (\<lambda>i. []),
             logged = [],
             events = [(2, Lambda_t2), (3, Lambda_t3), (10, Lambda_leak),
                       (12, Lambda_dump), (25, StopEvent)],
             now = 0,
             stopped = False\<rparr>\<rparr>"
  by (simp add: setup_defs)

text \<open>
  A run with a limit is a prefix of the run without one: continuing from the state
  reached at time \<open>T\<close> gives the result of the whole run.
\<close>

lemma Run_loop_resume:
  "Run_loop lim st = Inr st' \<Longrightarrow> Run_loop None st' = Run_loop None st"
proof (induction lim st rule: Run_loop.induct)
  case (1 lim st)
  show ?case
  proof (cases "events (ns st)")
    case Nil
    with "1.prems" show ?thesis by (simp add: Run_loop_Nil)
  next
    case (Cons x rest)
    obtain t a where x: "x = (t, a)" by (cases x)
    note ev = Cons [unfolded x]
    show ?thesis
    proof (cases "stopped (ns st) \<or> \<not> within lim t")
      case True
      then have "Run_loop lim st = Inr st" by (auto simp: Run_loop_Cons [OF ev])
      with "1.prems" show ?thesis by simp
    next
      case False
      show ?thesis
      proof (cases "exec a (st\<lparr>ns := (ns st)\<lparr>events := rest, now := t\<rparr>\<rparr>)")
        case (Inl e)
        with "1.prems" False show ?thesis by (simp add: Run_loop_Cons [OF ev])
      next
        case (Inr st2)
        with "1.prems" False have "Run_loop lim st2 = Inr st'"
          by (simp add: Run_loop_Cons [OF ev])
        with "1.IH" ev False Inr have "Run_loop None st' = Run_loop None st2" by simp
        moreover from False Inr have "Run_loop None st = Run_loop None st2"
          by (simp add: Run_loop_Cons [OF ev] within_def)
        ultimately show ?thesis by simp
      qed
    qed
  qed
qed

lemma main_from_state_at: "state_at d T = Inr st \<Longrightarrow> main d = Run_loop None st"
  by (simp add: state_at_def main_def Simulator_Run_def Run_loop_resume)

lemma state_from_empty: "state_from (\<lambda>i. []) d T = state_at d T"
  by (simp add: state_from_def state_at_def with_tables_def main_setup_eq)

lemmas run_simps = state_at_def main_setup_eq within_def exec_defs Run_loop_Cons
  Run_loop_Nil sent_loop_eq

lemma count_list_sent: "count_list (map LogSentTo xs) (LogSentTo a) = count_list xs a"
  by (induction xs) simp_all

section \<open>The scenario of main\<close>

text \<open>
  C1 (as stated, refuted). The claim says that after the leak event at t=10 the route
  AS65002 holds for 10.1.0.0/16 differs from the one it held before the leak. On the
  program, with the library's default address 102.102.102.102, the table of AS65002's
  node holds at t=9 the single route (10.1.0.0, 255.255.0.0, next hop 10.2.1.2,
  interface 1) for this destination, and at t=10 a second request for exactly the same
  route: no other route is held after the leak.
\<close>

theorem leak_route_same_counterexample:
  "routes_at (dotted 102 102 102 102) 9 3 (dotted 10 1 0 0) (dotted 255 255 0 0) =
     Inr [\<lparr>dest = dotted 10 1 0 0, destMask = dotted 255 255 0 0,
             gateway = dotted 10 2 1 2, interface = 1\<rparr>]
   \<and> routes_at (dotted 102 102 102 102) 10 3 (dotted 10 1 0 0) (dotted 255 255 0 0) =
     Inr [\<lparr>dest = dotted 10 1 0 0, destMask = dotted 255 255 0 0,
             gateway = dotted 10 2 1 2, interface = 1\<rparr>,
          \<lparr>dest = dotted 10 1 0 0, destMask = dotted 255 255 0 0,
             gateway = dotted 10 2 1 2, interface = 1\<rparr>]"
  by (simp add: observe_defs run_simps dotted_def)

text \<open>
  C1 (amended). At every time from the advertisement at t=2 up to the leak, the routes
  AS65002's node holds for 10.1.0.0/16 are the single route (10.1.0.0, 255.255.0.0,
  next hop 10.2.1.2, interface 1); at every time from the leak at t=10 on, they are two
  copies of that same route. A route holds a destination, a mask, a next hop and an
  interface, and no origin or path.
\<close>

theorem leak_route_unchanged:
  assumes "2 \<le> T1" and "T1 < 10" and "10 \<le> T2"
  shows "routes_at d T1 3 (dotted 10 1 0 0) (dotted 255 255 0 0) =
           Inr [\<lparr>dest = dotted 10 1 0 0, destMask = dotted 255 255 0 0,
             gateway = dotted 10 2 1 2, interface = 1\<rparr>]
         \<and> routes_at d T2 3 (dotted 10 1 0 0) (dotted 255 255 0 0) =
           Inr [\<lparr>dest = dotted 10 1 0 0, destMask = dotted 255 255 0 0,
             gateway = dotted 10 2 1 2, interface = 1\<rparr>,
                \<lparr>dest = dotted 10 1 0 0, destMask = dotted 255 255 0 0,
             gateway = dotted 10 2 1 2, interface = 1\<rparr>]"
  using assms by (simp add: observe_defs run_simps dotted_def)

theorem leak_route_unchanged_witness:
  "(2::nat) \<le> 4 \<and> (4::nat) < 10 \<and> (10::nat) \<le> 12
   \<and> routes_at 0 4 3 (dotted 10 1 0 0) (dotted 255 255 0 0) =
       Inr [\<lparr>dest = dotted 10 1 0 0, destMask = dotted 255 255 0 0,
             gateway = dotted 10 2 1 2, interface = 1\<rparr>]
   \<and> routes_at 0 12 3 (dotted 10 1 0 0) (dotted 255 255 0 0) =
       Inr [\<lparr>dest = dotted 10 1 0 0, destMask = dotted 255 255 0 0,
             gateway = dotted 10 2 1 2, interface = 1\<rparr>,
            \<lparr>dest = dotted 10 1 0 0, destMask = dotted 255 255 0 0,
             gateway = dotted 10 2 1 2, interface = 1\<rparr>]"
proof -
  have h1: "(2::nat) \<le> 4" and h2: "(4::nat) < 10" and h3: "(10::nat) \<le> 12" by simp_all
  show ?thesis using leak_route_unchanged [OF h1 h2 h3, of 0] by simp
qed

text \<open>
  C2 (as stated, refuted). The claim says that at t=4 AS-B's table selects 10.1.0.0/16
  via A. On the program the only route requested on AS65002's node by t=4 has next hop
  10.2.1.2. This is the address AS65002 was initialised with; it is neither the AS
  number 65001 nor the address 10.1.1.2 AS65001 was initialised with, and it lies in
  10.2.0.0/16, the prefix AS65002 advertises, not in 10.1.0.0/16.
\<close>

theorem scenario_next_hop_counterexample:
  "table_at (dotted 102 102 102 102) 4 3 =
     Inr [\<lparr>dest = dotted 10 1 0 0, destMask = dotted 255 255 0 0,
             gateway = dotted 10 2 1 2, interface = 1\<rparr>]
   \<and> dotted 10 2 1 2 \<noteq> (65001 :: 32 word)
   \<and> dotted 10 2 1 2 \<noteq> dotted 10 1 1 2
   \<and> and (dotted 10 2 1 2) (dotted 255 255 0 0) = dotted 10 2 0 0
   \<and> and (dotted 10 2 1 2) (dotted 255 255 0 0) \<noteq> dotted 10 1 0 0"
  by (simp add: observe_defs run_simps dotted_def)

text \<open>
  C2 (amended). With each speaker registered as the other's neighbour, the log at t=4
  shows AS65001's advertisement of 10.1.0.0/16 sent to AS65002 and then AS65002's
  advertisement of 10.2.0.0/16 sent to AS65001. Whatever the static routing tables
  hold when the simulation starts, at t=4 the table of AS65002's node is its starting
  table followed by one requested route, 10.1.0.0/16 with next hop 10.2.1.2 (the
  address AS65002 was initialised with), interface 1; the table of AS65001's node is
  its starting table followed by one requested route, 10.2.0.0/16 with next hop
  10.1.1.2, interface 1; every other table is as it started. So the routes for
  10.1.0.0/16 on AS65002's node are those it started with and this one, and likewise
  for 10.2.0.0/16 on AS65001's node. In particular these two routes are the only ones
  the program has requested. No path is stored.
\<close>

theorem scenario_at_t4:
  "observe (\<lambda>st. staticRouting (ns st) 3) (state_from pre d 4) =
     Inr (pre 3 @ [\<lparr>dest = dotted 10 1 0 0, destMask = dotted 255 255 0 0,
             gateway = dotted 10 2 1 2, interface = 1\<rparr>])
   \<and> observe (\<lambda>st. staticRouting (ns st) 0) (state_from pre d 4) =
     Inr (pre 0 @ [\<lparr>dest = dotted 10 2 0 0, destMask = dotted 255 255 0 0,
             gateway = dotted 10 1 1 2, interface = 1\<rparr>])
   \<and> observe (\<lambda>st. staticRouting (ns st) i) (state_from pre d 4) =
     Inr (if i = 0 then pre 0 @ [\<lparr>dest = dotted 10 2 0 0, destMask = dotted 255 255 0 0,
             gateway = dotted 10 1 1 2, interface = 1\<rparr>]
          else if i = 3 then pre 3 @ [\<lparr>dest = dotted 10 1 0 0, destMask = dotted 255 255 0 0,
             gateway = dotted 10 2 1 2, interface = 1\<rparr>]
          else pre i)
   \<and> observe (\<lambda>st. routesFor (dotted 10 1 0 0) (dotted 255 255 0 0)
                       (staticRouting (ns st) 3)) (state_from pre d 4) =
     Inr (routesFor (dotted 10 1 0 0) (dotted 255 255 0 0) (pre 3) @
          [\<lparr>dest = dotted 10 1 0 0, destMask = dotted 255 255 0 0,
             gateway = dotted 10 2 1 2, interface = 1\<rparr>])
   \<and> observe (\<lambda>st. routesFor (dotted 10 2 0 0) (dotted 255 255 0 0)
                       (staticRouting (ns st) 0)) (state_from pre d 4) =
     Inr (routesFor (dotted 10 2 0 0) (dotted 255 255 0 0) (pre 0) @
          [\<lparr>dest = dotted 10 2 0 0, destMask = dotted 255 255 0 0,
             gateway = dotted 10 1 1 2, interface = 1\<rparr>])
   \<and> observe (\<lambda>st. logged (ns st)) (state_from pre d 4) =
     Inr [LogAdvertises 65001 (dotted 10 1 0 0) (dotted 255 255 0 0), LogSentTo 65002,
          LogAdvertises 65002 (dotted 10 2 0 0) (dotted 255 255 0 0), LogSentTo 65001]
   \<and> observe (\<lambda>st. (m_neighbors (as65001 st), m_nextHop (as65001 st)))
        (state_from pre d 4) =
     Inr ([65002], dotted 10 1 1 2)
   \<and> observe (\<lambda>st. (m_neighbors (as65002 st), m_nextHop (as65002 st)))
        (state_from pre d 4) =
     Inr ([65001], dotted 10 2 1 2)
   \<and> table_at d 4 3 =
     Inr [\<lparr>dest = dotted 10 1 0 0, destMask = dotted 255 255 0 0,
             gateway = dotted 10 2 1 2, interface = 1\<rparr>]
   \<and> table_at d 4 0 =
     Inr [\<lparr>dest = dotted 10 2 0 0, destMask = dotted 255 255 0 0,
             gateway = dotted 10 1 1 2, interface = 1\<rparr>]"
  by (simp add: observe_defs state_from_def with_tables_def run_simps)

text \<open>
  An instance: AS65002's node started with a loopback route and a route for each of
  the two networks it is attached to. At t=4 its table is these three routes followed
  by the requested one, and the routes for 10.1.0.0/16 are the requested one alone.
\<close>

theorem scenario_at_t4_witness:
  "observe (\<lambda>st. staticRouting (ns st) 3)
     (state_from
        (\<lambda>i. if i = 3
                 then [\<lparr>dest = dotted 127 0 0 0, destMask = dotted 255 0 0 0,
                         gateway = 0, interface = 0\<rparr>,
                       \<lparr>dest = dotted 10 2 1 0, destMask = dotted 255 255 255 0,
                         gateway = 0, interface = 1\<rparr>,
                       \<lparr>dest = dotted 10 2 2 0, destMask = dotted 255 255 255 0,
                         gateway = 0, interface = 2\<rparr>]
                 else [])
        (dotted 102 102 102 102) 4) =
     Inr [\<lparr>dest = dotted 127 0 0 0, destMask = dotted 255 0 0 0,
            gateway = 0, interface = 0\<rparr>,
          \<lparr>dest = dotted 10 2 1 0, destMask = dotted 255 255 255 0,
            gateway = 0, interface = 1\<rparr>,
          \<lparr>dest = dotted 10 2 2 0, destMask = dotted 255 255 255 0,
            gateway = 0, interface = 2\<rparr>,
          \<lparr>dest = dotted 10 1 0 0, destMask = dotted 255 255 0 0,
             gateway = dotted 10 2 1 2, interface = 1\<rparr>]
   \<and> observe (\<lambda>st. routesFor (dotted 10 1 0 0) (dotted 255 255 0 0)
                       (staticRouting (ns st) 3))
     (state_from
        (\<lambda>i. if i = 3
                 then [\<lparr>dest = dotted 127 0 0 0, destMask = dotted 255 0 0 0,
                         gateway = 0, interface = 0\<rparr>,
                       \<lparr>dest = dotted 10 2 1 0, destMask = dotted 255 255 255 0,
                         gateway = 0, interface = 1\<rparr>,
                       \<lparr>dest = dotted 10 2 2 0, destMask = dotted 255 255 255 0,
                         gateway = 0, interface = 2\<rparr>]
                 else [])
        (dotted 102 102 102 102) 4) =
     Inr [\<lparr>dest = dotted 10 1 0 0, destMask = dotted 255 255 0 0,
             gateway = dotted 10 2 1 2, interface = 1\<rparr>]"
  using scenario_at_t4
          [of "\<lambda>i. if i = 3
                 then [\<lparr>dest = dotted 127 0 0 0, destMask = dotted 255 0 0 0,
                         gateway = 0, interface = 0\<rparr>,
                       \<lparr>dest = dotted 10 2 1 0, destMask = dotted 255 255 255 0,
                         gateway = 0, interface = 1\<rparr>,
                       \<lparr>dest = dotted 10 2 2 0, destMask = dotted 255 255 255 0,
                         gateway = 0, interface = 2\<rparr>]
                 else []"
              "dotted 102 102 102 102"]
  by (simp add: routesFor_def dotted_def)

section \<open>Advertise\<close>

text \<open>
  C3 (as stated, refuted). The claim says that \<open>Advertise(r)\<close> records \<open>r\<close> in the
  speaker's route table. On AS65001 as \<open>main\<close> sets it up, advertising 10.1.0.0/16
  with an empty path returns the speaker as it was, and the static routing table of
  the speaker's IPv4 object (object 0) holds no route for 10.1.0.0/16 afterwards.
\<close>

theorem advertise_records_nothing_counterexample:
  "fst (Advertise \<lparr>prefix = dotted 10 1 0 0, mask_r = dotted 255 255 0 0, asPath = []\<rparr>
          (as65001 (main_setup (dotted 102 102 102 102)))
          (ns (main_setup (dotted 102 102 102 102)))) =
     as65001 (main_setup (dotted 102 102 102 102))
   \<and> m_ipv4 (as65001 (main_setup (dotted 102 102 102 102))) = Some 0
   \<and> routesFor (dotted 10 1 0 0) (dotted 255 255 0 0)
       (staticRouting
          (snd (Advertise
                  \<lparr>prefix = dotted 10 1 0 0, mask_r = dotted 255 255 0 0, asPath = []\<rparr>
                  (as65001 (main_setup (dotted 102 102 102 102)))
                  (ns (main_setup (dotted 102 102 102 102))))) 0) = []"
  by (simp add: Advertise_def main_setup_eq routesFor_def)

text \<open>
  C3 (amended). For every route \<open>r\<close>, speaker \<open>s\<close> and simulator state, \<open>Advertise(r)\<close>
  on \<open>s\<close> records nothing: the speaker is returned unchanged, every static routing
  table is unchanged, and so are the routes held for \<open>r\<close>'s prefix in any table. The
  route is a read-only argument and is not modified.
\<close>

theorem advertise_records_nothing:
  "fst (Advertise r s w) = s
   \<and> staticRouting (snd (Advertise r s w)) = staticRouting w
   \<and> routesFor (prefix r) (mask_r r) (staticRouting (snd (Advertise r s w)) i) =
       routesFor (prefix r) (mask_r r) (staticRouting w i)"
  by (simp add: Advertise_def)

text \<open>
  C4 (as stated, refuted). The claim says that each emission of \<open>Advertise\<close> is
  scheduled as a receive event at the current time. AS65001 as \<open>main\<close> sets it up has
  the neighbour 65002, and after its \<open>Advertise\<close> the event queue is the five events
  \<open>main\<close> scheduled: nothing was added.
\<close>

theorem advertise_schedules_nothing_counterexample:
  "m_neighbors (as65001 (main_setup (dotted 102 102 102 102))) = [65002]
   \<and> events (snd (Advertise
        \<lparr>prefix = dotted 10 1 0 0, mask_r = dotted 255 255 0 0, asPath = [65001]\<rparr>
        (as65001 (main_setup (dotted 102 102 102 102)))
        (ns (main_setup (dotted 102 102 102 102))))) =
       [(2, Lambda_t2), (3, Lambda_t3), (10, Lambda_leak), (12, Lambda_dump),
        (25, StopEvent)]"
  by (simp add: Advertise_def main_setup_eq)

text \<open>
  C4 (amended). For every route \<open>r\<close> and speaker \<open>s\<close>, \<open>Advertise(r)\<close> on \<open>s\<close> writes
  one log line naming \<open>s\<close>'s AS number and \<open>r\<close>'s prefix and mask, followed by one
  "sent to" log line for each entry of \<open>s\<close>'s neighbour list, in the list's order. It
  schedules no event: the event queue and the clock are unchanged.
\<close>

theorem advertise_logs_each_neighbor:
  "logged (snd (Advertise r s w)) =
     logged w @ LogAdvertises (m_as s) (prefix r) (mask_r r) # map LogSentTo (m_neighbors s)
   \<and> events (snd (Advertise r s w)) = events w
   \<and> now (snd (Advertise r s w)) = now w"
  by (simp add: Advertise_def sent_loop_eq)

text \<open>
  C10. \<open>Advertise\<close> preserves state: for every route \<open>r\<close> and speaker \<open>s\<close>,
  \<open>Advertise(r)\<close> returns \<open>s\<close> with its AS number, node, IPv4 object, next hop and
  neighbour list unchanged, and changes nothing of the simulator state but the log; the
  route is a read-only argument. \<open>AddNeighbor\<close> and \<open>Initialize\<close> leave the static
  routing tables unchanged too, and \<open>InstallRoute\<close>, whenever it returns, has changed
  them and left the speaker unchanged.
\<close>

theorem advertise_preserves_state:
  "fst (Advertise r s w) = s
   \<and> m_as (fst (Advertise r s w)) = m_as s
   \<and> m_node (fst (Advertise r s w)) = m_node s
   \<and> m_ipv4 (fst (Advertise r s w)) = m_ipv4 s
   \<and> m_nextHop (fst (Advertise r s w)) = m_nextHop s
   \<and> m_neighbors (fst (Advertise r s w)) = m_neighbors s
   \<and> snd (Advertise r s w) = w\<lparr>logged := logged (snd (Advertise r s w))\<rparr>
   \<and> staticRouting (snd (Advertise r s w)) = staticRouting w
   \<and> staticRouting (snd (AddNeighbor a s w)) = staticRouting w
   \<and> staticRouting (snd (Initialize n nh s w)) = staticRouting w
   \<and> (InstallRoute net msk s w = Inr (s', w') \<longrightarrow>
        s' = s \<and> staticRouting w' \<noteq> staticRouting w)"
  by (auto simp: Advertise_def AddNeighbor_def Initialize_def InstallRoute_def
      AddNetworkRouteTo_def fun_upd_idem_iff split: option.splits)

theorem advertise_preserves_state_witness:
  "InstallRoute (dotted 10 2 0 0) (dotted 255 255 0 0)
      (as65001 (main_setup (dotted 102 102 102 102))) (ns (main_setup (dotted 102 102 102 102))) =
     Inr (as65001 (main_setup (dotted 102 102 102 102)),
          AddNetworkRouteTo 0 (dotted 10 2 0 0) (dotted 255 255 0 0) (dotted 10 1 1 2) 1
            (ns (main_setup (dotted 102 102 102 102))))
   \<and> staticRouting
        (AddNetworkRouteTo 0 (dotted 10 2 0 0) (dotted 255 255 0 0) (dotted 10 1 1 2) 1
           (ns (main_setup (dotted 102 102 102 102)))) \<noteq>
      staticRouting (ns (main_setup (dotted 102 102 102 102)))"
proof -
  have h: "InstallRoute (dotted 10 2 0 0) (dotted 255 255 0 0)
      (as65001 (main_setup (dotted 102 102 102 102))) (ns (main_setup (dotted 102 102 102 102))) =
     Inr (as65001 (main_setup (dotted 102 102 102 102)),
          AddNetworkRouteTo 0 (dotted 10 2 0 0) (dotted 255 255 0 0) (dotted 10 1 1 2) 1
            (ns (main_setup (dotted 102 102 102 102))))"
    by (simp add: InstallRoute_def main_setup_eq)
  from advertise_preserves_state
         [of _ "as65001 (main_setup (dotted 102 102 102 102))" "ns (main_setup (dotted 102 102 102 102))" _ _ _
             "dotted 10 2 0 0" "dotted 255 255 0 0" "as65001 (main_setup (dotted 102 102 102 102))"
             "AddNetworkRouteTo 0 (dotted 10 2 0 0) (dotted 255 255 0 0) (dotted 10 1 1 2) 1
                (ns (main_setup (dotted 102 102 102 102)))"]
  show ?thesis using h by blast
qed

section \<open>AddNeighbor\<close>

text \<open>
  C9. The neighbour list does not deduplicate: for every speaker \<open>s\<close> and AS number
  \<open>a\<close>, after two calls of \<open>AddNeighbor(a)\<close> the list is the old one followed by \<open>a\<close>
  twice, and a following \<open>Advertise\<close> writes its "sent to" line for \<open>a\<close> once for each
  occurrence: two more times than \<open>a\<close> occurred in the old list.
\<close>

theorem add_neighbor_twice:
  "m_neighbors (fst (AddNeighbor a (fst (AddNeighbor a s w)) (snd (AddNeighbor a s w)))) =
     m_neighbors s @ [a, a]
   \<and> logged (snd (Advertise r
        (fst (AddNeighbor a (fst (AddNeighbor a s w)) (snd (AddNeighbor a s w))))
        (snd (AddNeighbor a (fst (AddNeighbor a s w)) (snd (AddNeighbor a s w)))))) =
     logged w @ LogAdvertises (m_as s) (prefix r) (mask_r r)
       # map LogSentTo (m_neighbors s) @ [LogSentTo a, LogSentTo a]
   \<and> count_list (drop (length (logged w)) (logged (snd (Advertise r
        (fst (AddNeighbor a (fst (AddNeighbor a s w)) (snd (AddNeighbor a s w))))
        (snd (AddNeighbor a (fst (AddNeighbor a s w)) (snd (AddNeighbor a s w))))))))
       (LogSentTo a) =
     count_list (m_neighbors s) a + 2"
  by (simp add: AddNeighbor_def Advertise_def sent_loop_eq count_list_sent)

section \<open>InstallRoute\<close>

text \<open>
  C8. For every network and mask, \<open>InstallRoute\<close> on a speaker initialised on a node
  with an IPv4 object requests exactly one static route: the given network and mask,
  the next hop given to \<open>Initialize\<close>, interface 1. Neither a path nor an AS number is
  an argument. In the scenario the table of AS65002's node is at t=2 the route
  (10.1.0.0, 255.255.0.0, 10.2.1.2, 1), and at the leak at t=10 the same route is
  requested again.
\<close>

theorem install_route_fixed_next_hop:
  "(ipv4_of w n = Some i \<longrightarrow>
      InstallRoute net msk (fst (Initialize n nh s w)) w' =
        Inr (fst (Initialize n nh s w),
             w'\<lparr>staticRouting := (staticRouting w')
                   (i := staticRouting w' i @
                      [\<lparr>dest = net, destMask = msk, gateway = nh, interface = 1\<rparr>])\<rparr>))
   \<and> table_at d 2 3 =
       Inr [\<lparr>dest = dotted 10 1 0 0, destMask = dotted 255 255 0 0,
             gateway = dotted 10 2 1 2, interface = 1\<rparr>]
   \<and> table_at d 10 3 =
       Inr [\<lparr>dest = dotted 10 1 0 0, destMask = dotted 255 255 0 0,
             gateway = dotted 10 2 1 2, interface = 1\<rparr>,
            \<lparr>dest = dotted 10 1 0 0, destMask = dotted 255 255 0 0,
             gateway = dotted 10 2 1 2, interface = 1\<rparr>]"
proof -
  have "ipv4_of w n = Some i \<longrightarrow>
      InstallRoute net msk (fst (Initialize n nh s w)) w' =
        Inr (fst (Initialize n nh s w),
             w'\<lparr>staticRouting := (staticRouting w')
                   (i := staticRouting w' i @
                      [\<lparr>dest = net, destMask = msk, gateway = nh, interface = 1\<rparr>])\<rparr>)"
    by (simp add: InstallRoute_def Initialize_def AddNetworkRouteTo_def)
  moreover have "table_at d 2 3 =
       Inr [\<lparr>dest = dotted 10 1 0 0, destMask = dotted 255 255 0 0,
             gateway = dotted 10 2 1 2, interface = 1\<rparr>]"
    by (simp add: observe_defs run_simps)
  moreover have "table_at d 10 3 =
       Inr [\<lparr>dest = dotted 10 1 0 0, destMask = dotted 255 255 0 0,
             gateway = dotted 10 2 1 2, interface = 1\<rparr>,
            \<lparr>dest = dotted 10 1 0 0, destMask = dotted 255 255 0 0,
             gateway = dotted 10 2 1 2, interface = 1\<rparr>]"
    by (simp add: observe_defs run_simps)
  ultimately show ?thesis by blast
qed

theorem install_route_fixed_next_hop_witness:
  "ipv4_of ns3_initial 3 = Some 3
   \<and> InstallRoute (dotted 10 1 0 0) (dotted 255 255 0 0)
        (fst (Initialize 3 (dotted 10 2 1 2)
                (BgpSpeaker_new (dotted 102 102 102 102) 65002) ns3_initial))
        ns3_initial =
      Inr (fst (Initialize 3 (dotted 10 2 1 2)
                  (BgpSpeaker_new (dotted 102 102 102 102) 65002) ns3_initial),
           ns3_initial\<lparr>staticRouting := (staticRouting ns3_initial)
              (3 := staticRouting ns3_initial 3 @
                 [\<lparr>dest = dotted 10 1 0 0, destMask = dotted 255 255 0 0,
             gateway = dotted 10 2 1 2, interface = 1\<rparr>])\<rparr>)"
proof -
  have h: "ipv4_of ns3_initial 3 = Some 3" by (simp add: ns3_initial_def)
  from install_route_fixed_next_hop
         [of ns3_initial 3 3 "dotted 10 1 0 0" "dotted 255 255 0 0" "dotted 10 2 1 2"
             "BgpSpeaker_new (dotted 102 102 102 102) 65002" ns3_initial]
  show ?thesis using h by blast
qed

end
